theory Spec2Isabelle
  imports Main "HOL-Library.Sublist"
begin

section \<open>Values shared by the middleware and the routes\<close>

text \<open>
  A value that a JavaScript \<^verbatim>\<open>catch\<close> clause can receive: an \<^verbatim>\<open>Error\<close> object with its
  name and message, or any other thrown value, kept as its string rendering.
\<close>

datatype thrown = Error string string | NonError string

text \<open>\<^verbatim>\<open>error instanceof Error ? error.message : "Unknown error"\<close> (auth.ts).\<close>

fun error_message :: "thrown \<Rightarrow> string" where
  "error_message (Error name msg) = msg"
| "error_message (NonError s) = ''Unknown error''"

text \<open>
  String coercion of a caught value inside a template literal, \<^verbatim>\<open>`${error}`\<close>:
  \<^verbatim>\<open>Error.prototype.toString\<close> joins name and message with a colon and drops an empty part.
\<close>

fun to_string :: "thrown \<Rightarrow> string" where
  "to_string (Error name msg) =
     (if msg = [] then name else if name = [] then msg else name @ '': '' @ msg)"
| "to_string (NonError s) = s"

text \<open>
  Truthiness of a value of type \<^verbatim>\<open>string | undefined\<close>: \<^verbatim>\<open>undefined\<close> and the empty string
  are falsy.
\<close>

fun truthy :: "string option \<Rightarrow> bool" where
  "truthy None = False"
| "truthy (Some s) = (s \<noteq> [])"

text \<open>A \<^verbatim>\<open>string | undefined\<close> inside a template literal.\<close>

fun str_of :: "string option \<Rightarrow> string" where
  "str_of None = ''undefined''"
| "str_of (Some s) = s"

subsection \<open>Headers\<close>

text \<open>
  A \<^verbatim>\<open>Headers\<close> object keeps one value per name and compares names without regard to
  ASCII case: names are stored in lower case and looked up in lower case.
\<close>

text \<open>
  The upper-case letters are the codes 65 to 90; their sixth bit is clear, and setting it
  adds 32, which gives the lower-case letter.
\<close>

definition lower_char :: "char \<Rightarrow> char" where
  "lower_char c =
     (let n = (of_char c :: nat) in
      if 65 \<le> n \<and> n \<le> 90
      then Char (digit0 c) (digit1 c) (digit2 c) (digit3 c) (digit4 c) True (digit6 c) (digit7 c)
      else c)"

definition lowercase :: "string \<Rightarrow> string" where
  "lowercase s = map lower_char s"

type_synonym headers = "(string \<times> string) list"

definition headers_get :: "headers \<Rightarrow> string \<Rightarrow> string option" where
  "headers_get hs name = map_of hs (lowercase name)"

fun headers_set :: "headers \<Rightarrow> string \<Rightarrow> string \<Rightarrow> headers" where
  "headers_set [] name v = [(lowercase name, v)]"
| "headers_set ((k, x) # hs) name v =
     (if k = lowercase name then (k, v) # hs else (k, x) # headers_set hs name v)"

text \<open>A headers object literal \<^verbatim>\<open>{ "Origin": ..., ... }\<close>, entries set in order.\<close>

definition headers_init :: "(string \<times> string) list \<Rightarrow> headers" where
  "headers_init kvs = foldl (\<lambda>hs (name, v). headers_set hs name v) [] kvs"

subsection \<open>Requests, responses, sockets\<close>

text \<open>
  The three socket handles of one upgrade request: the two halves of the fresh
  \<^verbatim>\<open>WebSocketPair\<close> and a handle supplied by the backend.
\<close>

datatype socket = Client | Server | Remote nat

text \<open>
  A request. \<open>path\<close> is \<^verbatim>\<open>c.req.path\<close>, the percent-decoded path the framework routes
  on; \<open>pathname\<close> is \<^verbatim>\<open>new URL(c.req.url).pathname\<close>, which is not decoded.
\<close>

record request =
  req_method :: string
  path :: string
  pathname :: string
  req_headers :: headers
  req_body :: "string option"

record response =
  status :: nat
  res_headers :: headers
  res_body :: "string option"
  webSocket :: "socket option"

text \<open>The arguments of one \<^verbatim>\<open>VPC_SERVICE.fetch(url, init)\<close> call; the method defaults to GET.\<close>

record outbound =
  url :: string
  init_method :: string
  init_headers :: headers
  init_body :: "string option"

record env =
  CF_ACCESS_TEAM_NAME :: "string option"
  CF_ACCESS_AUD :: "string option"
  CF_ACCESS_CLIENT_ID :: "string option"
  CF_ACCESS_CLIENT_SECRET :: "string option"
  OPENCLAW_GATEWAY_TOKEN :: "string option"

text \<open>
  The collaborators outside the repository. \<open>jwtVerify\<close> stands for the body of the
  \<^verbatim>\<open>try\<close> block up to the call of \<^verbatim>\<open>next\<close>: building the remote key set from the
  certificates URL and verifying token, issuer and audience; it yields the value thrown, if
  any. \<open>vpc_fetch\<close> is \<^verbatim>\<open>c.env.VPC_SERVICE.fetch\<close>: it rejects with a thrown value or
  resolves to a response. \<open>ws_send_throws\<close> and \<open>ws_close_throws\<close> say whether a
  \<^verbatim>\<open>send\<close> or \<^verbatim>\<open>close\<close> call on a socket throws.
\<close>

record world =
  jwtVerify :: "string \<Rightarrow> string \<Rightarrow> string \<Rightarrow> string option \<Rightarrow> thrown option"
  vpc_fetch :: "outbound \<Rightarrow> thrown + response"
  ws_send_throws :: "socket \<Rightarrow> string \<Rightarrow> thrown option"
  ws_close_throws :: "socket \<Rightarrow> nat \<Rightarrow> string \<Rightarrow> thrown option"

text \<open>Arguments of \<^verbatim>\<open>console.log\<close> and \<^verbatim>\<open>console.error\<close>.\<close>

datatype log_arg = Str string | Val thrown

text \<open>What a handler does besides returning, in the order it happens.\<close>

datatype effect =
    ConsoleLog "log_arg list"
  | ConsoleError "log_arg list"
  | JwtVerify string string string "string option"
  | VpcFetch outbound
  | NewWebSocketPair
  | Accept socket
  | AddEventListener socket string
  | WsSend socket string
  | WsClose socket nat string

text \<open>A handler either throws or returns a response, and leaves a trace.\<close>

type_synonym result = "(thrown + response) \<times> effect list"

text \<open>\<^verbatim>\<open>c.json({ error: msg }, status)\<close>: the body is \<^verbatim>\<open>JSON.stringify\<close> of the object.\<close>

definition json_error :: "string \<Rightarrow> string" where
  "json_error msg = ''{'' @ [CHR 0x22] @ ''error'' @ [CHR 0x22] @ '':'' @ [CHR 0x22] @ msg @ [CHR 0x22] @ ''}''"

definition c_json :: "string \<Rightarrow> nat \<Rightarrow> response" where
  "c_json msg st =
     \<lparr>status = st, res_headers = [(''content-type'', ''application/json'')],
      res_body = Some (json_error msg), webSocket = None\<rparr>"

text \<open>\<^verbatim>\<open>c.redirect(location)\<close>: status 302 and a Location header, no body.\<close>

definition c_redirect :: "string \<Rightarrow> response" where
  "c_redirect loc =
     \<lparr>status = 302, res_headers = [(''location'', loc)], res_body = None, webSocket = None\<rparr>"

text \<open>\<^verbatim>\<open>new Response(text, { status })\<close> with a string body.\<close>

definition text_response :: "string \<Rightarrow> nat \<Rightarrow> response" where
  "text_response txt st =
     \<lparr>status = st, res_headers = [(''content-type'', ''text/plain;charset=UTF-8'')],
      res_body = Some txt, webSocket = None\<rparr>"

text \<open>\<^verbatim>\<open>c.req.header(name)\<close> and \<^verbatim>\<open>await c.req.text()\<close>.\<close>

definition req_header :: "request \<Rightarrow> string \<Rightarrow> string option" where
  "req_header req name = headers_get (req_headers req) name"

definition req_text :: "request \<Rightarrow> string" where
  "req_text req = (case req_body req of None \<Rightarrow> [] | Some b \<Rightarrow> b)"

section \<open>The Access middleware (src/middleware/auth.ts)\<close>

text \<open>
  The file holds two versions of \<^verbatim>\<open>accessAuth\<close>; the later one, which knows service
  tokens, is modelled.
\<close>

text \<open>
  A middleware takes \<open>nxt\<close>, what \<^verbatim>\<open>await next()\<close> yields: the outcome and the trace of
  the rest of the chain. The trace of \<open>nxt\<close> is appended only on the branches that call it.
\<close>

text \<open>
  The second half of the middleware, from \<^verbatim>\<open>// Fall back to user JWT authentication\<close>
  to its end. The call of \<^verbatim>\<open>next\<close> is inside the \<^verbatim>\<open>try\<close> block, so a value thrown by
  the rest of the chain is caught here too.
\<close>

definition jwt_auth :: "world \<Rightarrow> env \<Rightarrow> request \<Rightarrow> result \<Rightarrow> result" where
  "jwt_auth w e req nxt =
     (case req_header req ''cf-access-jwt-assertion'' of
        None \<Rightarrow>
          (Inr (c_json ''Missing required CF Access JWT or service token'' 403), [])
      | Some token \<Rightarrow>
          if token = [] then
            (Inr (c_json ''Missing required CF Access JWT or service token'' 403), [])
          else
            let certs = ''https://'' @ str_of (CF_ACCESS_TEAM_NAME e) @ ''/cdn-cgi/access/certs'';
                issuer = ''https://'' @ str_of (CF_ACCESS_TEAM_NAME e);
                call = JwtVerify token certs issuer (CF_ACCESS_AUD e)
            in
            (case jwtVerify w token certs issuer (CF_ACCESS_AUD e) of
               Some err \<Rightarrow>
                 (Inr (c_json ''Invalid or expired token'' 403),
                  [call, ConsoleError [Str ''[Auth] JWT validation failed:'', Str (error_message err)]])
             | None \<Rightarrow>
                 (case fst nxt of
                    Inr res \<Rightarrow> (Inr res, call # snd nxt)
                  | Inl err \<Rightarrow>
                      (Inr (c_json ''Invalid or expired token'' 403),
                       call # snd nxt @
                       [ConsoleError [Str ''[Auth] JWT validation failed:'', Str (error_message err)]]))))"

definition accessAuth :: "world \<Rightarrow> env \<Rightarrow> request \<Rightarrow> result \<Rightarrow> result" where
  "accessAuth w e req nxt =
     (if \<not> truthy (CF_ACCESS_TEAM_NAME e) then
        (Inr (c_json ''Server configuration error'' 500),
         [ConsoleError [Str ''[Auth] CF_ACCESS_TEAM_NAME environment variable is not set'']])
      else if \<not> truthy (CF_ACCESS_AUD e) then
        (Inr (c_json ''Server configuration error'' 500),
         [ConsoleError [Str ''[Auth] CF_ACCESS_AUD secret is not set'']])
      else
        let clientId = req_header req ''CF-Access-Client-Id'';
            clientSecret = req_header req ''CF-Access-Client-Secret''
        in
        if truthy clientId \<and> truthy clientSecret then
          (if truthy (CF_ACCESS_CLIENT_ID e) \<and> truthy (CF_ACCESS_CLIENT_SECRET e) \<and>
              clientId = CF_ACCESS_CLIENT_ID e \<and> clientSecret = CF_ACCESS_CLIENT_SECRET e
           then (fst nxt, ConsoleLog [Str ''[Auth] Service token validated successfully''] # snd nxt)
           else (Inr (c_json ''Invalid service token'' 403),
                 [ConsoleError [Str ''[Auth] Invalid service token credentials'']]))
        else jwt_auth w e req nxt)"

text \<open>
  The path condition of the two \<^verbatim>\<open>await next()\<close> call sites of the middleware: the
  request is authenticated.
\<close>

definition auth_passes :: "world \<Rightarrow> env \<Rightarrow> request \<Rightarrow> bool" where
  "auth_passes w e req =
     (truthy (CF_ACCESS_TEAM_NAME e) \<and> truthy (CF_ACCESS_AUD e) \<and>
      (let clientId = req_header req ''CF-Access-Client-Id'';
           clientSecret = req_header req ''CF-Access-Client-Secret''
       in
       if truthy clientId \<and> truthy clientSecret then
         truthy (CF_ACCESS_CLIENT_ID e) \<and> truthy (CF_ACCESS_CLIENT_SECRET e) \<and>
         clientId = CF_ACCESS_CLIENT_ID e \<and> clientSecret = CF_ACCESS_CLIENT_SECRET e
       else
         (case req_header req ''cf-access-jwt-assertion'' of
            None \<Rightarrow> False
          | Some token \<Rightarrow>
              token \<noteq> [] \<and>
              jwtVerify w token
                (''https://'' @ str_of (CF_ACCESS_TEAM_NAME e) @ ''/cdn-cgi/access/certs'')
                (''https://'' @ str_of (CF_ACCESS_TEAM_NAME e)) (CF_ACCESS_AUD e) = None)))"

text \<open>The one entry the middleware adds to the trace before it calls \<^verbatim>\<open>next\<close>.\<close>

definition auth_trace :: "env \<Rightarrow> request \<Rightarrow> effect" where
  "auth_trace e req =
     (if truthy (req_header req ''CF-Access-Client-Id'') \<and>
         truthy (req_header req ''CF-Access-Client-Secret'')
      then ConsoleLog [Str ''[Auth] Service token validated successfully'']
      else JwtVerify (str_of (req_header req ''cf-access-jwt-assertion''))
             (''https://'' @ str_of (CF_ACCESS_TEAM_NAME e) @ ''/cdn-cgi/access/certs'')
             (''https://'' @ str_of (CF_ACCESS_TEAM_NAME e)) (CF_ACCESS_AUD e))"

section \<open>The routes (src/index.ts)\<close>

definition origin :: string where
  "origin = ''http://localhost:18789''"

text \<open>\<^verbatim>\<open>app.post("/v1/chat/completions", ...)\<close>\<close>

text \<open>The arguments of the fetch the chat route issues.\<close>

definition chat_request :: "env \<Rightarrow> request \<Rightarrow> outbound" where
  "chat_request e req =
     \<lparr>url = ''http://localhost:18789/v1/chat/completions'',
      init_method = ''POST'',
      init_headers = headers_init
        [(''Origin'', origin),
         (''Content-Type'', ''application/json''),
         (''Authorization'', ''Bearer '' @ str_of (OPENCLAW_GATEWAY_TOKEN e))],
      init_body = Some (req_text req)\<rparr>"

definition chat_completions :: "world \<Rightarrow> env \<Rightarrow> request \<Rightarrow> result" where
  "chat_completions w e req =
     (if \<not> truthy (OPENCLAW_GATEWAY_TOKEN e) then
        (Inr (c_json ''Server configuration error'' 500),
         [ConsoleError [Str ''[Chat] OPENCLAW_GATEWAY_TOKEN secret is not set'']])
      else
        let out = chat_request e req
        in
        (case vpc_fetch w out of
           Inr res \<Rightarrow> (Inr res, [VpcFetch out])
         | Inl err \<Rightarrow>
             (Inr (c_json ''Failed to process chat request'' 500),
              [VpcFetch out, ConsoleError [Str ''[Chat] Error:'', Val err]])))"

text \<open>\<^verbatim>\<open>app.post("/tools/invoke", ...)\<close>\<close>

text \<open>The arguments of the fetch the tools route issues.\<close>

definition tools_request :: "request \<Rightarrow> outbound" where
  "tools_request req =
     (let mergedHeaders = headers_set (req_headers req) ''Origin'' origin
      in \<lparr>url = ''http://localhost:18789/tools/invoke'',
          init_method = ''POST'',
          init_headers = mergedHeaders,
          init_body = req_body req\<rparr>)"

definition tools_invoke :: "world \<Rightarrow> env \<Rightarrow> request \<Rightarrow> result" where
  "tools_invoke w e req =
     (let out = tools_request req
      in
      (case vpc_fetch w out of
         Inr res \<Rightarrow> (Inr res, [VpcFetch out])
       | Inl err \<Rightarrow>
           (Inr (c_json ''Failed to invoke tool'' 500),
            [VpcFetch out, ConsoleError [Str ''[Tools] Error:'', Val err]])))"

text \<open>
  The asset and SPA routes return the promise of the fetch itself: a rejection is thrown
  by the handler.
\<close>

definition proxy_get :: "world \<Rightarrow> string \<Rightarrow> result" where
  "proxy_get w target =
     (let out = \<lparr>url = target, init_method = ''GET'',
                 init_headers = headers_init [(''Origin'', origin)],
                 init_body = None\<rparr>
      in (vpc_fetch w out, [VpcFetch out]))"

text \<open>\<^verbatim>\<open>String.prototype.replace\<close> with a string pattern: the first occurrence only.\<close>

fun replace_first :: "string \<Rightarrow> string \<Rightarrow> string \<Rightarrow> string" where
  "replace_first pat rep [] = (if pat = [] then rep else [])"
| "replace_first pat rep (c # cs) =
     (if prefix pat (c # cs) then rep @ drop (length pat) (c # cs)
      else c # replace_first pat rep cs)"

definition app_assets :: "world \<Rightarrow> env \<Rightarrow> request \<Rightarrow> result" where
  "app_assets w e req =
     (let assetPath = replace_first ''/app/assets'' ''/assets'' (pathname req)
      in proxy_get w (''http://localhost:18789'' @ assetPath))"

definition app_favicon_ico :: "world \<Rightarrow> env \<Rightarrow> request \<Rightarrow> result" where
  "app_favicon_ico w e req = proxy_get w ''http://localhost:18789/favicon.ico''"

definition app_favicon_svg :: "world \<Rightarrow> env \<Rightarrow> request \<Rightarrow> result" where
  "app_favicon_svg w e req = proxy_get w ''http://localhost:18789/favicon.svg''"

definition app_spa :: "world \<Rightarrow> env \<Rightarrow> request \<Rightarrow> result" where
  "app_spa w e req = proxy_get w ''http://localhost:18789/''"

definition assets :: "world \<Rightarrow> env \<Rightarrow> request \<Rightarrow> result" where
  "assets w e req = proxy_get w (''http://localhost:18789'' @ pathname req)"

subsection \<open>The socket bridge\<close>

datatype ws_event = MessageEvent string | CloseEvent nat string | ErrorEvent

fun event_type :: "ws_event \<Rightarrow> string" where
  "event_type (MessageEvent d) = ''message''"
| "event_type (CloseEvent c r) = ''close''"
| "event_type ErrorEvent = ''error''"

text \<open>A call of \<^verbatim>\<open>send\<close> or \<^verbatim>\<open>close\<close> on a socket: the call is traced, and it may throw.\<close>

definition ws_send :: "world \<Rightarrow> socket \<Rightarrow> string \<Rightarrow> thrown option \<times> effect list" where
  "ws_send w s d = (ws_send_throws w s d, [WsSend s d])"

definition ws_close :: "world \<Rightarrow> socket \<Rightarrow> nat \<Rightarrow> string \<Rightarrow> thrown option \<times> effect list" where
  "ws_close w s c r = (ws_close_throws w s c r, [WsClose s c r])"

text \<open>
  An event listener yields the value it throws, if any, and its trace. The six listeners
  the root handler registers, in the order of registration; each is applied only to events
  of the type it is registered for.
\<close>

type_synonym listener = "world \<Rightarrow> ws_event \<Rightarrow> thrown option \<times> effect list"

definition forward_listener :: "socket \<Rightarrow> string \<Rightarrow> listener" where
  "forward_listener target label w ev =
     (case ev of
        MessageEvent d \<Rightarrow>
          (case ws_send w target d of
             (None, t) \<Rightarrow> (None, t)
           | (Some err, t) \<Rightarrow> (None, t @ [ConsoleError [Str label, Val err]]))
      | CloseEvent c r \<Rightarrow> (None, [])
      | ErrorEvent \<Rightarrow> (None, []))"

definition close_listener :: "socket \<Rightarrow> listener" where
  "close_listener target w ev =
     (case ev of
        CloseEvent c r \<Rightarrow>
          (case ws_close w target c r of
             (None, t) \<Rightarrow> (None, t)
           | (Some err, t) \<Rightarrow> (None, t))
      | MessageEvent d \<Rightarrow> (None, [])
      | ErrorEvent \<Rightarrow> (None, []))"

definition error_listener :: "socket \<Rightarrow> string \<Rightarrow> listener" where
  "error_listener target reason w ev =
     (case ws_close w target 1011 reason of
        (None, t) \<Rightarrow> (None, t)
      | (Some err, t) \<Rightarrow> (None, t))"

definition bridge_listeners :: "socket \<Rightarrow> (socket \<times> string \<times> listener) list" where
  "bridge_listeners openclawWs =
     [(Server, ''message'', forward_listener openclawWs ''[WS] Error forwarding to OpenClaw:''),
      (Server, ''close'', close_listener openclawWs),
      (Server, ''error'', error_listener openclawWs ''Client error''),
      (openclawWs, ''message'', forward_listener Server ''[WS] Error forwarding to client:''),
      (openclawWs, ''close'', close_listener Server),
      (openclawWs, ''error'', error_listener Server ''Server error'')]"

text \<open>
  An event on a socket runs the listeners registered on that socket for the event's type,
  in registration order. A listener that throws does not stop the later ones; the first
  value thrown is kept.
\<close>

fun dispatch_event ::
  "world \<Rightarrow> (socket \<times> string \<times> listener) list \<Rightarrow> socket \<Rightarrow> ws_event \<Rightarrow> thrown option \<times> effect list"
where
  "dispatch_event w [] s ev = (None, [])"
| "dispatch_event w ((s', k, f) # ls) s ev =
     (if s' = s \<and> k = event_type ev then
        (case (f w ev, dispatch_event w ls s ev) of
           ((Some err, t), (r, t')) \<Rightarrow> (Some err, t @ t')
         | ((None, t), (r, t')) \<Rightarrow> (r, t @ t'))
      else dispatch_event w ls s ev)"

text \<open>The arguments of the upgrade fetch the root route issues.\<close>

definition upgrade_request :: "request \<Rightarrow> outbound" where
  "upgrade_request req =
     (let key = (if truthy (req_header req ''Sec-WebSocket-Key'')
                 then str_of (req_header req ''Sec-WebSocket-Key'')
                 else ''dGhlIHNhbXBsZSBub25jZQ=='')
      in \<lparr>url = ''http://localhost:18789/'',
          init_method = ''GET'',
          init_headers = headers_init
            [(''Origin'', origin),
             (''Upgrade'', ''websocket''),
             (''Connection'', ''Upgrade''),
             (''Sec-WebSocket-Version'', ''13''),
             (''Sec-WebSocket-Key'', key)],
          init_body = None\<rparr>)"

text \<open>\<^verbatim>\<open>app.get("/", ...)\<close>\<close>

definition root :: "world \<Rightarrow> env \<Rightarrow> request \<Rightarrow> result" where
  "root w e req =
     (if req_header req ''Upgrade'' = Some ''websocket'' then
        let out = upgrade_request req
        in
        (case vpc_fetch w out of
           Inl err \<Rightarrow>
             (Inr (text_response (''WebSocket proxy error: '' @ to_string err) 502),
              [NewWebSocketPair, VpcFetch out,
               ConsoleError [Str ''[WS] WebSocket proxy error:'', Val err]])
         | Inr openclawResponse \<Rightarrow>
             (case webSocket openclawResponse of
                None \<Rightarrow>
                  (Inr (text_response ''Failed to connect to OpenClaw WebSocket'' 502),
                   [NewWebSocketPair, VpcFetch out,
                    ConsoleError [Str ''[WS] Failed to establish WebSocket connection to OpenClaw'']])
              | Some openclawWs \<Rightarrow>
                  (Inr \<lparr>status = 101, res_headers = [], res_body = None, webSocket = Some Client\<rparr>,
                   [NewWebSocketPair, VpcFetch out, Accept Server, Accept openclawWs] @
                   map (\<lambda>(s, k, f). AddEventListener s k) (bridge_listeners openclawWs))))
      else (Inr (c_redirect ''/app''), []))"

text \<open>\<^verbatim>\<open>app.all("*", ...)\<close>\<close>

definition not_found :: "world \<Rightarrow> env \<Rightarrow> request \<Rightarrow> result" where
  "not_found w e req =
     (Inr (c_json ''Not found'' 404),
      [ConsoleLog [Str (''[404] Unmatched route: '' @ req_method req @ '' '' @ path req)]])"

subsection \<open>Routing\<close>

text \<open>
  A route pattern \<open>pre/*\<close> matches \<open>pre\<close> itself and every path below it. The handlers
  are tried in the order of registration and the first match answers. The method \<open>m\<close> to
  match is given apart from the request, whose own method the handlers still read.
\<close>

definition under :: "string \<Rightarrow> string \<Rightarrow> bool" where
  "under pre p = (p = pre \<or> prefix (pre @ ''/'') p)"

definition route :: "world \<Rightarrow> env \<Rightarrow> request \<Rightarrow> string \<Rightarrow> result" where
  "route w e req m =
     (if m = ''POST'' \<and> path req = ''/v1/chat/completions'' then chat_completions w e req
      else if m = ''POST'' \<and> path req = ''/tools/invoke'' then tools_invoke w e req
      else if m = ''GET'' \<and> under ''/app/assets'' (path req) then app_assets w e req
      else if m = ''GET'' \<and> path req = ''/app/favicon.ico'' then app_favicon_ico w e req
      else if m = ''GET'' \<and> path req = ''/app/favicon.svg'' then app_favicon_svg w e req
      else if m = ''GET'' \<and> under ''/app'' (path req) then app_spa w e req
      else if m = ''GET'' \<and> under ''/assets'' (path req) then assets w e req
      else if m = ''GET'' \<and> path req = ''/'' then root w e req
      else not_found w e req)"

text \<open>
  \<^verbatim>\<open>app.onError\<close>: the framework hands an \<^verbatim>\<open>Error\<close> thrown by a handler or a middleware to
  the error handler; any other thrown value is thrown on.
\<close>

definition onError :: "result \<Rightarrow> result" where
  "onError r =
     (case fst r of
        Inl (Error name msg) \<Rightarrow>
          (Inr (c_json ''Internal server error'' 500),
           snd r @ [ConsoleError [Str (''[Error] Unhandled: '' @ msg)]])
      | Inl (NonError s) \<Rightarrow> r
      | Inr res \<Rightarrow> r)"

text \<open>
  The framework's dispatch for a method \<open>m\<close>: \<^verbatim>\<open>app.use("*", accessAuth)\<close> in front of
  every route, the error handler around the handlers and around the whole chain.
\<close>

definition dispatch :: "world \<Rightarrow> env \<Rightarrow> request \<Rightarrow> string \<Rightarrow> result" where
  "dispatch w e req m = onError (accessAuth w e req (onError (route w e req m)))"

text \<open>
  \<^verbatim>\<open>app.fetch\<close>. The framework dispatches a HEAD request as GET and answers with
  \<^verbatim>\<open>new Response(null, response)\<close>: the response of the GET dispatch without its body.
\<close>

definition head_response :: "response \<Rightarrow> response" where
  "head_response res = res\<lparr>res_body := None\<rparr>"

definition app_fetch :: "world \<Rightarrow> env \<Rightarrow> request \<Rightarrow> result" where
  "app_fetch w e req =
     (if req_method req = ''HEAD'' then
        (case dispatch w e req ''GET'' of
           (Inr res, t) \<Rightarrow> (Inr (head_response res), t)
         | (Inl err, t) \<Rightarrow> (Inl err, t))
      else dispatch w e req (req_method req))"

section \<open>Sample configurations, collaborators and requests\<close>

definition env_sample :: env where
  "env_sample =
     \<lparr>CF_ACCESS_TEAM_NAME = Some ''team.cloudflareaccess.com'',
      CF_ACCESS_AUD = Some ''aud-tag-1'',
      CF_ACCESS_CLIENT_ID = Some ''svc.access'',
      CF_ACCESS_CLIENT_SECRET = Some ''s3cret'',
      OPENCLAW_GATEWAY_TOKEN = Some ''gw-token''\<rparr>"

definition backend_ok :: response where
  "backend_ok =
     \<lparr>status = 200, res_headers = [(''content-type'', ''application/json''), (''x-backend'', ''openclaw'')],
      res_body = Some ''pong'', webSocket = None\<rparr>"

definition backend_upgraded :: response where
  "backend_upgraded =
     \<lparr>status = 101, res_headers = [], res_body = None, webSocket = Some (Remote 7)\<rparr>"

text \<open>A backend that answers every fetch with \<open>backend_ok\<close>; only the token \<open>good.jwt\<close> verifies.\<close>

definition world_sample :: world where
  "world_sample =
     \<lparr>jwtVerify = (\<lambda>token certs issuer aud.
         if token = ''good.jwt'' then None
         else Some (Error ''JWSInvalid'' ''Invalid Compact JWS'')),
      vpc_fetch = (\<lambda>out. Inr backend_ok),
      ws_send_throws = (\<lambda>s d. None),
      ws_close_throws = (\<lambda>s c r. None)\<rparr>"

text \<open>The same, with a backend that upgrades, refuses the connection, or times out.\<close>

definition world_upgrading :: world where
  "world_upgrading = world_sample\<lparr>vpc_fetch := (\<lambda>out. Inr backend_upgraded)\<rparr>"

definition world_refusing :: world where
  "world_refusing =
     world_sample\<lparr>vpc_fetch := (\<lambda>out. Inl (Error ''Error'' ''connect ECONNREFUSED 10.0.0.5:18789''))\<rparr>"

definition world_timing_out :: world where
  "world_timing_out =
     world_sample\<lparr>vpc_fetch := (\<lambda>out. Inl (Error ''Error'' ''upstream timed out''))\<rparr>"

text \<open>Requests to the root path: with the configured service token, and with a bearer assertion.\<close>

definition req_service :: request where
  "req_service =
     \<lparr>req_method = ''GET'', path = ''/'', pathname = ''/'',
      req_headers = [(''cf-access-client-id'', ''svc.access''), (''cf-access-client-secret'', ''s3cret'')],
      req_body = None\<rparr>"

definition req_jwt :: request where
  "req_jwt =
     \<lparr>req_method = ''GET'', path = ''/'', pathname = ''/'',
      req_headers = [(''cf-access-jwt-assertion'', ''good.jwt'')],
      req_body = None\<rparr>"

text \<open>A wrong service-token secret next to a bearer assertion that verifies.\<close>

definition req_wrong_secret_jwt :: request where
  "req_wrong_secret_jwt =
     \<lparr>req_method = ''GET'', path = ''/'', pathname = ''/'',
      req_headers = [(''cf-access-client-id'', ''svc.access''), (''cf-access-client-secret'', ''guess''),
                     (''cf-access-jwt-assertion'', ''good.jwt'')],
      req_body = None\<rparr>"

text \<open>An empty client id header next to the configured secret.\<close>

definition req_empty_id :: request where
  "req_empty_id =
     \<lparr>req_method = ''GET'', path = ''/'', pathname = ''/'',
      req_headers = [(''cf-access-client-id'', []), (''cf-access-client-secret'', ''s3cret'')],
      req_body = None\<rparr>"

text \<open>An upgrade request to the root path, with a bearer assertion that verifies.\<close>

definition req_upgrade :: request where
  "req_upgrade =
     \<lparr>req_method = ''GET'', path = ''/'', pathname = ''/'',
      req_headers = [(''cf-access-jwt-assertion'', ''good.jwt''), (''upgrade'', ''websocket'')],
      req_body = None\<rparr>"

text \<open>Sockets on which every \<^verbatim>\<open>send\<close> and every \<^verbatim>\<open>close\<close> throws.\<close>

definition world_failing_sockets :: world where
  "world_failing_sockets =
     world_sample
       \<lparr>ws_send_throws := (\<lambda>s d. Some (Error ''TypeError'' ''WebSocket send failed'')),
        ws_close_throws := (\<lambda>s c r. Some (Error ''TypeError'' ''Invalid WebSocket close code''))\<rparr>"

section \<open>Basic facts\<close>

lemmas header_defs = req_header_def headers_get_def lowercase_def lower_char_def

lemma onError_Inr: "fst r = Inr res \<Longrightarrow> onError r = r"
  by (simp add: onError_def)

text \<open>
  \<open>auth_passes\<close> is exactly the condition under which the middleware hands over to the
  rest of the chain. When it holds, the response of the chain comes back behind the
  middleware's one trace entry; when it fails, the answer does not depend on the chain.
\<close>

lemma accessAuth_pass:
  assumes "auth_passes w e req" and "fst nxt = Inr res"
  shows "accessAuth w e req nxt = (Inr res, auth_trace e req # snd nxt)"
  using assms
  by (auto simp: auth_passes_def accessAuth_def jwt_auth_def auth_trace_def Let_def
           split: option.splits if_splits)

lemma accessAuth_reject:
  assumes "\<not> auth_passes w e req"
  shows "accessAuth w e req nxt = accessAuth w e req nxt'"
  using assms
  by (auto simp: auth_passes_def accessAuth_def jwt_auth_def Let_def
           split: option.splits if_splits)

lemma accessAuth_config_fault:
  assumes "\<not> truthy (CF_ACCESS_TEAM_NAME e) \<or> \<not> truthy (CF_ACCESS_AUD e)"
  shows "accessAuth w e req nxt =
     (Inr (c_json ''Server configuration error'' 500),
      [ConsoleError [Str (if \<not> truthy (CF_ACCESS_TEAM_NAME e)
         then ''[Auth] CF_ACCESS_TEAM_NAME environment variable is not set''
         else ''[Auth] CF_ACCESS_AUD secret is not set'')]])"
  using assms by (auto simp: accessAuth_def)

lemma route_chat:
  "path req = ''/v1/chat/completions'' \<Longrightarrow> route w e req ''POST'' = chat_completions w e req"
  by (simp add: route_def)

lemma route_tools:
  "path req = ''/tools/invoke'' \<Longrightarrow> route w e req ''POST'' = tools_invoke w e req"
  by (simp add: route_def)

lemma route_root:
  "path req = ''/'' \<Longrightarrow> route w e req ''GET'' = root w e req"
  by (simp add: route_def under_def)

text \<open>A request whose method is GET or POST is dispatched under its own method.\<close>

lemma app_fetch_get:
  "req_method req = ''GET'' \<Longrightarrow>
   app_fetch w e req = onError (accessAuth w e req (onError (route w e req ''GET'')))"
  by (simp add: app_fetch_def dispatch_def)

lemma app_fetch_post:
  "req_method req = ''POST'' \<Longrightarrow>
   app_fetch w e req = onError (accessAuth w e req (onError (route w e req ''POST'')))"
  by (simp add: app_fetch_def dispatch_def)

lemma root_established:
  assumes "req_header req ''Upgrade'' = Some ''websocket''"
    and "vpc_fetch w (upgrade_request req) = Inr resp"
    and "webSocket resp = Some ws"
  shows "root w e req =
     (Inr \<lparr>status = 101, res_headers = [], res_body = None, webSocket = Some Client\<rparr>,
      [NewWebSocketPair, VpcFetch (upgrade_request req), Accept Server, Accept ws] @
      map (\<lambda>(s, k, f). AddEventListener s k) (bridge_listeners ws))"
  using assms by (simp add: root_def)

section \<open>Service-token precedence\<close>

text \<open>
  C1, as amended. With team domain and audience configured, a request whose two
  service-token headers are both present and non-empty is decided on the service-token
  path alone. If the configured client id and secret are both set and equal the presented
  values, the middleware hands over to the rest of the chain; otherwise it answers 403
  with the invalid-service-token body. The answer mentions neither the bearer-assertion
  header nor the token verifier: the bearer path is not evaluated, whatever assertion the
  request carries.
\<close>

theorem service_token_decides:
  assumes "truthy (CF_ACCESS_TEAM_NAME e)" and "truthy (CF_ACCESS_AUD e)"
    and "truthy (req_header req ''CF-Access-Client-Id'')"
    and "truthy (req_header req ''CF-Access-Client-Secret'')"
  shows "accessAuth w e req nxt =
     (if truthy (CF_ACCESS_CLIENT_ID e) \<and> truthy (CF_ACCESS_CLIENT_SECRET e) \<and>
         req_header req ''CF-Access-Client-Id'' = CF_ACCESS_CLIENT_ID e \<and>
         req_header req ''CF-Access-Client-Secret'' = CF_ACCESS_CLIENT_SECRET e
      then (fst nxt, ConsoleLog [Str ''[Auth] Service token validated successfully''] # snd nxt)
      else (Inr (c_json ''Invalid service token'' 403),
            [ConsoleError [Str ''[Auth] Invalid service token credentials'']]))"
  using assms by (simp add: accessAuth_def Let_def)

text \<open>
  The theorem at two requests: the configured service token is let through, and a wrong
  secret is rejected although the request also carries an assertion that verifies.
\<close>

theorem service_token_decides_witness:
  "truthy (CF_ACCESS_TEAM_NAME env_sample) \<and> truthy (CF_ACCESS_AUD env_sample) \<and>
   truthy (req_header req_service ''CF-Access-Client-Id'') \<and>
   truthy (req_header req_service ''CF-Access-Client-Secret'') \<and>
   truthy (req_header req_wrong_secret_jwt ''CF-Access-Client-Id'') \<and>
   truthy (req_header req_wrong_secret_jwt ''CF-Access-Client-Secret'') \<and>
   accessAuth world_sample env_sample req_service (Inr backend_ok, []) =
     (Inr backend_ok, [ConsoleLog [Str ''[Auth] Service token validated successfully'']]) \<and>
   accessAuth world_sample env_sample req_wrong_secret_jwt (Inr backend_ok, []) =
     (Inr (c_json ''Invalid service token'' 403),
      [ConsoleError [Str ''[Auth] Invalid service token credentials'']])"
  using service_token_decides [of env_sample req_service world_sample "(Inr backend_ok, [])"]
    service_token_decides [of env_sample req_wrong_secret_jwt world_sample "(Inr backend_ok, [])"]
  by (simp add: env_sample_def req_service_def req_wrong_secret_jwt_def header_defs)

text \<open>
  C1 as stated fails where the team domain is not configured: a request with the
  configured service token is answered 500 by the configuration check, which comes first.
\<close>

theorem service_token_without_team_counterexample:
  "truthy (req_header req_service ''CF-Access-Client-Id'') \<and>
   truthy (req_header req_service ''CF-Access-Client-Secret'') \<and>
   req_header req_service ''CF-Access-Client-Id'' =
     CF_ACCESS_CLIENT_ID (env_sample\<lparr>CF_ACCESS_TEAM_NAME := None\<rparr>) \<and>
   req_header req_service ''CF-Access-Client-Secret'' =
     CF_ACCESS_CLIENT_SECRET (env_sample\<lparr>CF_ACCESS_TEAM_NAME := None\<rparr>) \<and>
   accessAuth world_sample (env_sample\<lparr>CF_ACCESS_TEAM_NAME := None\<rparr>) req_service
       (Inr backend_ok, []) =
     (Inr (c_json ''Server configuration error'' 500),
      [ConsoleError [Str ''[Auth] CF_ACCESS_TEAM_NAME environment variable is not set'']]) \<and>
   accessAuth world_sample (env_sample\<lparr>CF_ACCESS_TEAM_NAME := None\<rparr>) req_service
       (Inr backend_ok, []) \<noteq>
     (Inr backend_ok, [ConsoleLog [Str ''[Auth] Service token validated successfully'']])"
  by (simp add: accessAuth_def env_sample_def req_service_def header_defs c_json_def backend_ok_def)

section \<open>Service-token headers without service-token configuration\<close>

text \<open>
  C2, as amended. With team domain and audience configured, when the configured client id
  or the configured client secret is unset, a request that presents both service-token
  headers with non-empty values is rejected on the service-token path, with 403 and the
  invalid-service-token body; the bearer-assertion check is not reached.
\<close>

theorem unset_service_config_rejects:
  assumes "truthy (CF_ACCESS_TEAM_NAME e)" and "truthy (CF_ACCESS_AUD e)"
    and "truthy (req_header req ''CF-Access-Client-Id'')"
    and "truthy (req_header req ''CF-Access-Client-Secret'')"
    and "\<not> (truthy (CF_ACCESS_CLIENT_ID e) \<and> truthy (CF_ACCESS_CLIENT_SECRET e))"
  shows "accessAuth w e req nxt =
     (Inr (c_json ''Invalid service token'' 403),
      [ConsoleError [Str ''[Auth] Invalid service token credentials'']])"
  using assms by (auto simp: accessAuth_def Let_def)

theorem unset_service_config_rejects_witness:
  "truthy (CF_ACCESS_TEAM_NAME
     (env_sample\<lparr>CF_ACCESS_CLIENT_ID := None, CF_ACCESS_CLIENT_SECRET := None\<rparr>)) \<and>
   truthy (CF_ACCESS_AUD
     (env_sample\<lparr>CF_ACCESS_CLIENT_ID := None, CF_ACCESS_CLIENT_SECRET := None\<rparr>)) \<and>
   truthy (req_header req_service ''CF-Access-Client-Id'') \<and>
   truthy (req_header req_service ''CF-Access-Client-Secret'') \<and>
   accessAuth world_sample
       (env_sample\<lparr>CF_ACCESS_CLIENT_ID := None, CF_ACCESS_CLIENT_SECRET := None\<rparr>)
       req_service (Inr backend_ok, []) =
     (Inr (c_json ''Invalid service token'' 403),
      [ConsoleError [Str ''[Auth] Invalid service token credentials'']])"
  using unset_service_config_rejects
    [of "env_sample\<lparr>CF_ACCESS_CLIENT_ID := None, CF_ACCESS_CLIENT_SECRET := None\<rparr>"
        req_service world_sample "(Inr backend_ok, [])"]
  by (simp add: env_sample_def req_service_def header_defs)

text \<open>
  C2 as stated fails: with no service-token configuration, a request with both
  service-token headers and an assertion that verifies is not handed to the bearer path,
  which would let it through, but rejected as an invalid service token.
\<close>

theorem unset_service_config_counterexample:
  "CF_ACCESS_CLIENT_ID
     (env_sample\<lparr>CF_ACCESS_CLIENT_ID := None, CF_ACCESS_CLIENT_SECRET := None\<rparr>) = None \<and>
   CF_ACCESS_CLIENT_SECRET
     (env_sample\<lparr>CF_ACCESS_CLIENT_ID := None, CF_ACCESS_CLIENT_SECRET := None\<rparr>) = None \<and>
   jwt_auth world_sample
       (env_sample\<lparr>CF_ACCESS_CLIENT_ID := None, CF_ACCESS_CLIENT_SECRET := None\<rparr>)
       req_wrong_secret_jwt (Inr backend_ok, []) =
     (Inr backend_ok,
      [JwtVerify ''good.jwt'' ''https://team.cloudflareaccess.com/cdn-cgi/access/certs''
         ''https://team.cloudflareaccess.com'' (Some ''aud-tag-1'')]) \<and>
   accessAuth world_sample
       (env_sample\<lparr>CF_ACCESS_CLIENT_ID := None, CF_ACCESS_CLIENT_SECRET := None\<rparr>)
       req_wrong_secret_jwt (Inr backend_ok, []) =
     (Inr (c_json ''Invalid service token'' 403),
      [ConsoleError [Str ''[Auth] Invalid service token credentials'']]) \<and>
   accessAuth world_sample
       (env_sample\<lparr>CF_ACCESS_CLIENT_ID := None, CF_ACCESS_CLIENT_SECRET := None\<rparr>)
       req_wrong_secret_jwt (Inr backend_ok, []) \<noteq>
   jwt_auth world_sample
       (env_sample\<lparr>CF_ACCESS_CLIENT_ID := None, CF_ACCESS_CLIENT_SECRET := None\<rparr>)
       req_wrong_secret_jwt (Inr backend_ok, [])"
  by (simp add: accessAuth_def jwt_auth_def env_sample_def world_sample_def
        req_wrong_secret_jwt_def header_defs c_json_def backend_ok_def)

section \<open>Error details in response bodies\<close>

text \<open>
  The catch branches of the chat route, the tools route and the bearer path, and the
  application's error handler, answer with a fixed body whatever was caught.
\<close>

lemma chat_error_generic:
  assumes "truthy (OPENCLAW_GATEWAY_TOKEN e)" and "vpc_fetch w (chat_request e req) = Inl err"
  shows "fst (chat_completions w e req) = Inr (c_json ''Failed to process chat request'' 500)"
  using assms by (simp add: chat_completions_def)

lemma tools_error_generic:
  assumes "vpc_fetch w (tools_request req) = Inl err"
  shows "fst (tools_invoke w e req) = Inr (c_json ''Failed to invoke tool'' 500)"
  using assms by (simp add: tools_invoke_def)

lemma jwt_error_generic:
  assumes "req_header req ''cf-access-jwt-assertion'' = Some token" and "token \<noteq> []"
    and "jwtVerify w token (''https://'' @ str_of (CF_ACCESS_TEAM_NAME e) @ ''/cdn-cgi/access/certs'')
           (''https://'' @ str_of (CF_ACCESS_TEAM_NAME e)) (CF_ACCESS_AUD e) = Some err"
  shows "fst (jwt_auth w e req nxt) = Inr (c_json ''Invalid or expired token'' 403)"
  using assms by (simp add: jwt_auth_def)

lemma onError_generic:
  "fst (onError (Inl (Error name msg), t)) = Inr (c_json ''Internal server error'' 500)"
  by (simp add: onError_def)

text \<open>The catch branch of the root route puts the string form of the caught value into the body.\<close>

lemma root_error_echo:
  assumes "req_header req ''Upgrade'' = Some ''websocket''"
    and "vpc_fetch w (upgrade_request req) = Inl err"
  shows "fst (root w e req) = Inr (text_response (''WebSocket proxy error: '' @ to_string err) 502)"
  using assms by (simp add: root_def)

text \<open>
  C3 says that the body of the error response of the root upgrade handler is the same
  whatever was caught. It is not: two runs of the same authenticated upgrade request that
  differ only in the error with which the backend fetch rejects get different bodies, each
  carrying the text of its error.
\<close>

theorem ws_error_body_echoes_error:
  "fst (app_fetch world_refusing env_sample req_upgrade) =
     Inr (text_response ''WebSocket proxy error: Error: connect ECONNREFUSED 10.0.0.5:18789'' 502) \<and>
   fst (app_fetch world_timing_out env_sample req_upgrade) =
     Inr (text_response ''WebSocket proxy error: Error: upstream timed out'' 502) \<and>
   fst (app_fetch world_refusing env_sample req_upgrade) \<noteq>
   fst (app_fetch world_timing_out env_sample req_upgrade)"
  by (simp add: app_fetch_def dispatch_def onError_def accessAuth_def jwt_auth_def route_def under_def root_def
        upgrade_request_def env_sample_def world_sample_def world_refusing_def
        world_timing_out_def req_upgrade_def header_defs text_response_def)

section \<open>Missing trust configuration\<close>

text \<open>
  C4, as amended. If the configured team domain is absent, or the configured audience is
  absent, every request, whatever its route, method and credentials, is answered with
  status 500. The body is \<^verbatim>\<open>{"error":"Server configuration error"}\<close>, except that the
  answer to a HEAD request is that response without a body. The middleware's answer is the
  same for every rest of the chain, so no route handler is invoked: no fetch is issued and
  no socket pair is created.
\<close>

theorem config_fault_on_every_route:
  assumes "\<not> truthy (CF_ACCESS_TEAM_NAME e) \<or> \<not> truthy (CF_ACCESS_AUD e)"
  shows \<open>fst (app_fetch w e req) =
           Inr (if req_method req = ''HEAD''
                then head_response (c_json ''Server configuration error'' 500)
                else c_json ''Server configuration error'' 500) \<and>
         status (c_json ''Server configuration error'' 500) = 500 \<and>
         status (head_response (c_json ''Server configuration error'' 500)) = 500 \<and>
         res_body (c_json ''Server configuration error'' 500) =
           Some ''{"error":"Server configuration error"}'' \<and>
         res_body (head_response (c_json ''Server configuration error'' 500)) = None \<and>
         (\<forall>nxt. accessAuth w e req nxt =
            (Inr (c_json ''Server configuration error'' 500), snd (app_fetch w e req))) \<and>
         (\<forall>out. VpcFetch out \<notin> set (snd (app_fetch w e req))) \<and>
         NewWebSocketPair \<notin> set (snd (app_fetch w e req))\<close>
proof -
  let ?t = "[ConsoleError [Str (if \<not> truthy (CF_ACCESS_TEAM_NAME e)
         then ''[Auth] CF_ACCESS_TEAM_NAME environment variable is not set''
         else ''[Auth] CF_ACCESS_AUD secret is not set'')]]"
  have mw: "accessAuth w e req nxt = (Inr (c_json ''Server configuration error'' 500), ?t)" for nxt
    using assms by (rule accessAuth_config_fault)
  have dp: "dispatch w e req m = (Inr (c_json ''Server configuration error'' 500), ?t)" for m
    by (simp add: dispatch_def mw onError_def)
  have app: "app_fetch w e req =
      (Inr (if req_method req = ''HEAD''
            then head_response (c_json ''Server configuration error'' 500)
            else c_json ''Server configuration error'' 500), ?t)"
    by (simp add: app_fetch_def dp)
  show ?thesis
    by (simp add: app mw c_json_def json_error_def head_response_def)
qed

text \<open>
  The theorem at a tools request with the configured service token and an empty audience,
  and at a HEAD request to the root path.
\<close>

theorem config_fault_on_every_route_witness:
  \<open>\<not> truthy (CF_ACCESS_AUD (env_sample\<lparr>CF_ACCESS_AUD := Some []\<rparr>)) \<and>
   fst (app_fetch world_sample (env_sample\<lparr>CF_ACCESS_AUD := Some []\<rparr>)
          (req_service\<lparr>req_method := ''POST'', path := ''/tools/invoke'', pathname := ''/tools/invoke''\<rparr>)) =
     Inr (c_json ''Server configuration error'' 500) \<and>
   (\<forall>out. VpcFetch out \<notin> set (snd (app_fetch world_sample (env_sample\<lparr>CF_ACCESS_AUD := Some []\<rparr>)
          (req_service\<lparr>req_method := ''POST'', path := ''/tools/invoke'', pathname := ''/tools/invoke''\<rparr>)))) \<and>
   fst (app_fetch world_sample (env_sample\<lparr>CF_ACCESS_AUD := Some []\<rparr>)
          (req_service\<lparr>req_method := ''HEAD''\<rparr>)) =
     Inr (head_response (c_json ''Server configuration error'' 500))\<close>
  using config_fault_on_every_route
    [of "env_sample\<lparr>CF_ACCESS_AUD := Some []\<rparr>" world_sample
        "req_service\<lparr>req_method := ''POST'', path := ''/tools/invoke'', pathname := ''/tools/invoke''\<rparr>"]
    config_fault_on_every_route
    [of "env_sample\<lparr>CF_ACCESS_AUD := Some []\<rparr>" world_sample
        "req_service\<lparr>req_method := ''HEAD''\<rparr>"]
  by (simp add: env_sample_def)

text \<open>
  C4 as stated fails at a HEAD request: with the team domain set to the empty string, the
  answer has status 500 and no body, not the configuration-error body.
\<close>

theorem config_fault_head_counterexample:
  \<open>\<not> truthy (CF_ACCESS_TEAM_NAME (env_sample\<lparr>CF_ACCESS_TEAM_NAME := Some []\<rparr>)) \<and>
   req_method (req_jwt\<lparr>req_method := ''HEAD''\<rparr>) = ''HEAD'' \<and>
   fst (app_fetch world_sample (env_sample\<lparr>CF_ACCESS_TEAM_NAME := Some []\<rparr>)
          (req_jwt\<lparr>req_method := ''HEAD''\<rparr>)) =
     Inr \<lparr>status = 500, res_headers = [(''content-type'', ''application/json'')],
          res_body = None, webSocket = None\<rparr> \<and>
   fst (app_fetch world_sample (env_sample\<lparr>CF_ACCESS_TEAM_NAME := Some []\<rparr>)
          (req_jwt\<lparr>req_method := ''HEAD''\<rparr>)) \<noteq>
     Inr (c_json ''Server configuration error'' 500) \<and>
   res_body (c_json ''Server configuration error'' 500) =
     Some ''{"error":"Server configuration error"}''\<close>
  by (simp add: app_fetch_def dispatch_def head_response_def onError_def accessAuth_def
        env_sample_def req_jwt_def c_json_def json_error_def)

section \<open>The bridge: close and error events\<close>

text \<open>
  C5. In an established bridge session, that is, when the upgrade request to the backend
  came back with a socket and the handler accepted both sockets and registered its
  listeners, a close event with code \<open>c\<close> and reason \<open>r\<close> on either socket calls
  \<^verbatim>\<open>close\<close> on the other socket with the same \<open>c\<close> and \<open>r\<close>, and an error event on either
  socket calls \<^verbatim>\<open>close\<close> on the other socket with code 1011 and a short fixed reason.
  Nothing else happens, and no listener throws, whether or not the \<^verbatim>\<open>close\<close> call does.
  The backend's socket is not a half of the pair just created.
\<close>

theorem bridge_close_and_error_propagation:
  assumes "req_header req ''Upgrade'' = Some ''websocket''"
    and "vpc_fetch w (upgrade_request req) = Inr resp"
    and "webSocket resp = Some ws"
    and "ws \<noteq> Server"
  shows "snd (root w e req) =
           [NewWebSocketPair, VpcFetch (upgrade_request req), Accept Server, Accept ws] @
           map (\<lambda>(s, k, f). AddEventListener s k) (bridge_listeners ws) \<and>
         dispatch_event w' (bridge_listeners ws) Server (CloseEvent c r) = (None, [WsClose ws c r]) \<and>
         dispatch_event w' (bridge_listeners ws) ws (CloseEvent c r) = (None, [WsClose Server c r]) \<and>
         dispatch_event w' (bridge_listeners ws) Server ErrorEvent =
           (None, [WsClose ws 1011 ''Client error'']) \<and>
         dispatch_event w' (bridge_listeners ws) ws ErrorEvent =
           (None, [WsClose Server 1011 ''Server error''])"
proof -
  have reg: "snd (root w e req) =
           [NewWebSocketPair, VpcFetch (upgrade_request req), Accept Server, Accept ws] @
           map (\<lambda>(s, k, f). AddEventListener s k) (bridge_listeners ws)"
    using assms(1-3) by (simp add: root_established)
  have cl: "close_listener t w' (CloseEvent c r) = (None, [WsClose t c r])" for t
    by (simp add: close_listener_def ws_close_def split: option.splits)
  have er: "error_listener t m w' ErrorEvent = (None, [WsClose t 1011 m])" for t m
    by (simp add: error_listener_def ws_close_def split: option.splits)
  from \<open>ws \<noteq> Server\<close> have ne: "Server \<noteq> ws" by simp
  have 1: "dispatch_event w' (bridge_listeners ws) Server (CloseEvent c r) =
      (None, [WsClose ws c r])"
    using ne by (simp add: bridge_listeners_def cl)
  have 2: "dispatch_event w' (bridge_listeners ws) ws (CloseEvent c r) =
      (None, [WsClose Server c r])"
    using ne by (simp add: bridge_listeners_def cl)
  have 3: "dispatch_event w' (bridge_listeners ws) Server ErrorEvent =
      (None, [WsClose ws 1011 ''Client error''])"
    using ne by (simp add: bridge_listeners_def er)
  have 4: "dispatch_event w' (bridge_listeners ws) ws ErrorEvent =
      (None, [WsClose Server 1011 ''Server error''])"
    using ne by (simp add: bridge_listeners_def er)
  from reg 1 2 3 4 show ?thesis by simp
qed

text \<open>The theorem at a backend that upgrades, with sockets on which every \<^verbatim>\<open>close\<close> throws.\<close>

theorem bridge_close_and_error_propagation_witness:
  "req_header req_upgrade ''Upgrade'' = Some ''websocket'' \<and>
   vpc_fetch world_upgrading (upgrade_request req_upgrade) = Inr backend_upgraded \<and>
   webSocket backend_upgraded = Some (Remote 7) \<and>
   dispatch_event world_failing_sockets (bridge_listeners (Remote 7)) Server (CloseEvent 1000 ''bye'') =
     (None, [WsClose (Remote 7) 1000 ''bye'']) \<and>
   dispatch_event world_failing_sockets (bridge_listeners (Remote 7)) (Remote 7)
       (CloseEvent 1001 ''going away'') =
     (None, [WsClose Server 1001 ''going away'']) \<and>
   dispatch_event world_failing_sockets (bridge_listeners (Remote 7)) Server ErrorEvent =
     (None, [WsClose (Remote 7) 1011 ''Client error'']) \<and>
   dispatch_event world_failing_sockets (bridge_listeners (Remote 7)) (Remote 7) ErrorEvent =
     (None, [WsClose Server 1011 ''Server error''])"
  using bridge_close_and_error_propagation
      [of req_upgrade world_upgrading backend_upgraded "Remote 7" env_sample
          world_failing_sockets 1000 "''bye''"]
    bridge_close_and_error_propagation
      [of req_upgrade world_upgrading backend_upgraded "Remote 7" env_sample
          world_failing_sockets 1001 "''going away''"]
  by (simp add: req_upgrade_def world_upgrading_def world_sample_def backend_upgraded_def header_defs)

section \<open>The bridge: a backend without a socket\<close>

text \<open>
  C6. For every authenticated GET request to the root path with \<^verbatim>\<open>Upgrade: websocket\<close>,
  if the backend's response to the upgrade fetch carries no socket, the caller gets status
  502 and \<^verbatim>\<open>accept\<close> is called on no socket.
\<close>

theorem no_backend_socket_502:
  assumes "auth_passes w e req"
    and "req_method req = ''GET''" and "path req = ''/''"
    and "req_header req ''Upgrade'' = Some ''websocket''"
    and "vpc_fetch w (upgrade_request req) = Inr resp"
    and "webSocket resp = None"
  shows "fst (app_fetch w e req) = Inr (text_response ''Failed to connect to OpenClaw WebSocket'' 502) \<and>
         status (text_response ''Failed to connect to OpenClaw WebSocket'' 502) = 502 \<and>
         (\<forall>s. Accept s \<notin> set (snd (app_fetch w e req)))"
proof -
  have r: "root w e req =
     (Inr (text_response ''Failed to connect to OpenClaw WebSocket'' 502),
      [NewWebSocketPair, VpcFetch (upgrade_request req),
       ConsoleError [Str ''[WS] Failed to establish WebSocket connection to OpenClaw'']])"
    using assms(4-6) by (simp add: root_def)
  have "app_fetch w e req =
     (Inr (text_response ''Failed to connect to OpenClaw WebSocket'' 502),
      [auth_trace e req, NewWebSocketPair, VpcFetch (upgrade_request req),
       ConsoleError [Str ''[WS] Failed to establish WebSocket connection to OpenClaw'']])"
    using assms(1-3) by (simp add: app_fetch_get route_root r onError_Inr accessAuth_pass)
  then show ?thesis
    by (auto simp: text_response_def auth_trace_def)
qed

theorem no_backend_socket_502_witness:
  "auth_passes world_sample env_sample req_upgrade \<and>
   req_method req_upgrade = ''GET'' \<and> path req_upgrade = ''/'' \<and>
   req_header req_upgrade ''Upgrade'' = Some ''websocket'' \<and>
   vpc_fetch world_sample (upgrade_request req_upgrade) = Inr backend_ok \<and>
   webSocket backend_ok = None \<and>
   fst (app_fetch world_sample env_sample req_upgrade) =
     Inr (text_response ''Failed to connect to OpenClaw WebSocket'' 502) \<and>
   (\<forall>s. Accept s \<notin> set (snd (app_fetch world_sample env_sample req_upgrade)))"
  using no_backend_socket_502 [of world_sample env_sample req_upgrade backend_ok]
  by (simp add: auth_passes_def env_sample_def req_upgrade_def world_sample_def backend_ok_def
        header_defs)

section \<open>Pass-through of the tools route\<close>

text \<open>
  C7. For every authenticated POST request to \<^verbatim>\<open>/tools/invoke\<close> whose backend fetch
  resolves, the response returned to the caller is the very response the backend returned:
  status, headers, body and all.
\<close>

theorem tools_invoke_passthrough:
  assumes "auth_passes w e req"
    and "req_method req = ''POST''" and "path req = ''/tools/invoke''"
    and "vpc_fetch w (tools_request req) = Inr res"
  shows "fst (app_fetch w e req) = Inr res"
proof -
  have "tools_invoke w e req = (Inr res, [VpcFetch (tools_request req)])"
    using assms(4) by (simp add: tools_invoke_def)
  then show ?thesis
    using assms(1-3) by (simp add: app_fetch_post route_tools onError_Inr accessAuth_pass)
qed

theorem tools_invoke_passthrough_witness:
  "auth_passes world_sample env_sample
     (req_service\<lparr>req_method := ''POST'', path := ''/tools/invoke'', pathname := ''/tools/invoke''\<rparr>) \<and>
   vpc_fetch world_sample
     (tools_request (req_service\<lparr>req_method := ''POST'', path := ''/tools/invoke'', pathname := ''/tools/invoke''\<rparr>)) =
     Inr backend_ok \<and>
   fst (app_fetch world_sample env_sample
     (req_service\<lparr>req_method := ''POST'', path := ''/tools/invoke'', pathname := ''/tools/invoke''\<rparr>)) =
     Inr backend_ok"
  using tools_invoke_passthrough
    [of world_sample env_sample "req_service\<lparr>req_method := ''POST'', path := ''/tools/invoke'', pathname := ''/tools/invoke''\<rparr>"
        backend_ok]
  by (simp add: auth_passes_def env_sample_def req_service_def world_sample_def header_defs)

section \<open>The chat route without an upstream token\<close>

text \<open>
  C8. For every authenticated POST request to \<^verbatim>\<open>/v1/chat/completions\<close>, if the upstream
  bearer token is unset, the answer is status 500 with the configuration-error body, and
  no fetch to the backend is issued.
\<close>

theorem chat_without_upstream_token:
  assumes "auth_passes w e req"
    and "req_method req = ''POST''" and "path req = ''/v1/chat/completions''"
    and "\<not> truthy (OPENCLAW_GATEWAY_TOKEN e)"
  shows \<open>fst (app_fetch w e req) = Inr (c_json ''Server configuration error'' 500) \<and>
         status (c_json ''Server configuration error'' 500) = 500 \<and>
         res_body (c_json ''Server configuration error'' 500) =
           Some ''{"error":"Server configuration error"}'' \<and>
         (\<forall>out. VpcFetch out \<notin> set (snd (app_fetch w e req)))\<close>
proof -
  have "chat_completions w e req =
     (Inr (c_json ''Server configuration error'' 500),
      [ConsoleError [Str ''[Chat] OPENCLAW_GATEWAY_TOKEN secret is not set'']])"
    using assms(4) by (simp add: chat_completions_def)
  then have "app_fetch w e req =
     (Inr (c_json ''Server configuration error'' 500),
      [auth_trace e req, ConsoleError [Str ''[Chat] OPENCLAW_GATEWAY_TOKEN secret is not set'']])"
    using assms(1-3) by (simp add: app_fetch_post route_chat onError_Inr accessAuth_pass)
  then show ?thesis
    by (auto simp: c_json_def json_error_def auth_trace_def)
qed

theorem chat_without_upstream_token_witness:
  \<open>auth_passes world_sample (env_sample\<lparr>OPENCLAW_GATEWAY_TOKEN := None\<rparr>)
     (req_jwt\<lparr>req_method := ''POST'', path := ''/v1/chat/completions'', pathname := ''/v1/chat/completions''\<rparr>) \<and>
   \<not> truthy (OPENCLAW_GATEWAY_TOKEN (env_sample\<lparr>OPENCLAW_GATEWAY_TOKEN := None\<rparr>)) \<and>
   fst (app_fetch world_sample (env_sample\<lparr>OPENCLAW_GATEWAY_TOKEN := None\<rparr>)
     (req_jwt\<lparr>req_method := ''POST'', path := ''/v1/chat/completions'', pathname := ''/v1/chat/completions''\<rparr>)) =
     Inr (c_json ''Server configuration error'' 500) \<and>
   (\<forall>out. VpcFetch out \<notin>
      set (snd (app_fetch world_sample (env_sample\<lparr>OPENCLAW_GATEWAY_TOKEN := None\<rparr>)
        (req_jwt\<lparr>req_method := ''POST'', path := ''/v1/chat/completions'', pathname := ''/v1/chat/completions''\<rparr>))))\<close>
  using chat_without_upstream_token
    [of world_sample "env_sample\<lparr>OPENCLAW_GATEWAY_TOKEN := None\<rparr>"
        "req_jwt\<lparr>req_method := ''POST'', path := ''/v1/chat/completions'', pathname := ''/v1/chat/completions''\<rparr>"]
  by (simp add: auth_passes_def env_sample_def req_jwt_def world_sample_def header_defs)

section \<open>Empty service-token headers\<close>

text \<open>
  C9, as amended. With team domain and audience configured, a request in which either
  service-token header carries the empty string is treated as carrying no service token:
  the answer is the one of the bearer-assertion path, which is 403 with the
  missing-credential body when the request has no assertion header. It is not rejected as
  an invalid service token.
\<close>

theorem empty_service_header_falls_through:
  assumes "truthy (CF_ACCESS_TEAM_NAME e)" and "truthy (CF_ACCESS_AUD e)"
    and "req_header req ''CF-Access-Client-Id'' = Some [] \<or>
         req_header req ''CF-Access-Client-Secret'' = Some []"
  shows "accessAuth w e req nxt = jwt_auth w e req nxt \<and>
         (req_header req ''cf-access-jwt-assertion'' = None \<longrightarrow>
          accessAuth w e req nxt =
            (Inr (c_json ''Missing required CF Access JWT or service token'' 403), []))"
  using assms by (auto simp: accessAuth_def jwt_auth_def Let_def)

theorem empty_service_header_falls_through_witness:
  "truthy (CF_ACCESS_TEAM_NAME env_sample) \<and> truthy (CF_ACCESS_AUD env_sample) \<and>
   req_header req_empty_id ''CF-Access-Client-Id'' = Some [] \<and>
   req_header req_empty_id ''cf-access-jwt-assertion'' = None \<and>
   accessAuth world_sample env_sample req_empty_id (Inr backend_ok, []) =
     (Inr (c_json ''Missing required CF Access JWT or service token'' 403), [])"
  using empty_service_header_falls_through
    [of env_sample req_empty_id world_sample "(Inr backend_ok, [])"]
  by (auto simp add: env_sample_def req_empty_id_def header_defs)

text \<open>
  C9 as stated fails where the audience is not configured: the request with an empty
  client id and no assertion is answered 500 by the configuration check and never reaches
  the bearer path.
\<close>

theorem empty_service_header_without_audience_counterexample:
  "req_header req_empty_id ''CF-Access-Client-Id'' = Some [] \<and>
   req_header req_empty_id ''cf-access-jwt-assertion'' = None \<and>
   accessAuth world_sample (env_sample\<lparr>CF_ACCESS_AUD := None\<rparr>) req_empty_id (Inr backend_ok, []) =
     (Inr (c_json ''Server configuration error'' 500),
      [ConsoleError [Str ''[Auth] CF_ACCESS_AUD secret is not set'']]) \<and>
   accessAuth world_sample (env_sample\<lparr>CF_ACCESS_AUD := None\<rparr>) req_empty_id (Inr backend_ok, []) \<noteq>
     (Inr (c_json ''Missing required CF Access JWT or service token'' 403), [])"
  by (simp add: accessAuth_def env_sample_def req_empty_id_def header_defs c_json_def)

section \<open>The bridge trigger\<close>

text \<open>
  C10. The root route compares the value of the Upgrade header with the exact string
  \<^verbatim>\<open>websocket\<close>. For every authenticated GET request to the root path whose Upgrade header
  is anything else, \<^verbatim>\<open>WebSocket\<close> or no header at all included, the answer is the redirect
  to \<^verbatim>\<open>/app\<close>, and the bridge is not entered: no socket pair, no fetch, no accept.
\<close>

theorem non_websocket_upgrade_redirects:
  assumes "auth_passes w e req"
    and "req_method req = ''GET''" and "path req = ''/''"
    and "req_header req ''Upgrade'' \<noteq> Some ''websocket''"
  shows "app_fetch w e req = (Inr (c_redirect ''/app''), [auth_trace e req]) \<and>
         status (c_redirect ''/app'') = 302 \<and>
         res_headers (c_redirect ''/app'') = [(''location'', ''/app'')] \<and>
         NewWebSocketPair \<notin> set (snd (app_fetch w e req)) \<and>
         (\<forall>out. VpcFetch out \<notin> set (snd (app_fetch w e req))) \<and>
         (\<forall>s. Accept s \<notin> set (snd (app_fetch w e req)))"
proof -
  have "root w e req = (Inr (c_redirect ''/app''), [])"
    using assms(4) by (simp add: root_def)
  then have "app_fetch w e req = (Inr (c_redirect ''/app''), [auth_trace e req])"
    using assms(1-3) by (simp add: app_fetch_get route_root onError_Inr accessAuth_pass)
  then show ?thesis
    by (auto simp: c_redirect_def auth_trace_def)
qed

text \<open>
  The theorem at a backend that would upgrade: once with \<^verbatim>\<open>Upgrade: WebSocket\<close>, once
  without the header.
\<close>

theorem non_websocket_upgrade_redirects_witness:
  "auth_passes world_upgrading env_sample
     (req_jwt\<lparr>req_headers := headers_set (req_headers req_jwt) ''Upgrade'' ''WebSocket''\<rparr>) \<and>
   req_header (req_jwt\<lparr>req_headers := headers_set (req_headers req_jwt) ''Upgrade'' ''WebSocket''\<rparr>)
     ''Upgrade'' = Some ''WebSocket'' \<and>
   fst (app_fetch world_upgrading env_sample
     (req_jwt\<lparr>req_headers := headers_set (req_headers req_jwt) ''Upgrade'' ''WebSocket''\<rparr>)) =
     Inr (c_redirect ''/app'') \<and>
   auth_passes world_upgrading env_sample req_jwt \<and>
   req_header req_jwt ''Upgrade'' = None \<and>
   fst (app_fetch world_upgrading env_sample req_jwt) = Inr (c_redirect ''/app'')"
  using non_websocket_upgrade_redirects
      [of world_upgrading env_sample
          "req_jwt\<lparr>req_headers := headers_set (req_headers req_jwt) ''Upgrade'' ''WebSocket''\<rparr>"]
    non_websocket_upgrade_redirects [of world_upgrading env_sample req_jwt]
  by (simp add: auth_passes_def env_sample_def req_jwt_def world_upgrading_def world_sample_def
        header_defs)

end
